theory Spec2Isabelle
  imports Main
begin

section \<open>Values, exceptions and external collaborators\<close>

text \<open>
  The quiz builder of \<^verbatim>\<open>src/app/api/features/quizzify.py\<close> works on parsed JSON:
  a model response is whatever the output parser returns, which is a Python value built
  from \<^verbatim>\<open>dict\<close>, \<^verbatim>\<open>list\<close>, \<^verbatim>\<open>str\<close>, numbers, booleans and \<^verbatim>\<open>None\<close>.
  A dictionary keeps its insertion order and is an association list here; a float is its
  decimal mantissa and exponent.
\<close>

datatype json =
    JNull
  | JBool bool
  | JInt int
  | JFloat int int
  | JStr string
  | JList "json list"
  | JDict "(string \<times> json) list"

text \<open>
  Python exceptions are values. \<open>ValueError\<close> is what the builder raises itself;
  \<open>TypeError\<close> and \<open>AttributeError\<close> come from the interpreter;
  \<open>OutputParserException\<close> is what an output parser raises on text it cannot parse;
  \<open>ProviderError\<close> stands for any exception of an external provider (model, embedding,
  vector store, file system).
\<close>

datatype error =
    ValueError string
  | TypeError string
  | AttributeError string
  | OutputParserException string
  | ProviderError string

text \<open>The six schema classes declared at the end of the module.\<close>

datatype schema =
    FillInTheBlankQuestion
  | OpenEndedQuestion
  | TrueFalseQuestion
  | MultipleChoiceQuestion
  | RelateConceptsQuestion
  | MathExerciseQuestion

type_synonym document = string
type_synonym embeddings = string
type_synonym vectorstore = nat

text \<open>
  A generative model, seen from the chain: the raw text it answers to the chain input
  on its \<open>k\<close>-th invocation within a request, or the exception raised on the way
  (retrieval, prompt rendering and the model call itself happen behind it).
\<close>

type_synonym llm = "string \<Rightarrow> nat \<Rightarrow> error + string"

text \<open>
  An output parser object: the schema it was built for, its format instructions and
  its \<^verbatim>\<open>parse\<close> method, which may raise.
\<close>

record output_parser =
  pydantic_object :: "schema option"
  get_format_instructions :: "error + string"
  parse :: "string \<Rightarrow> error + json"

text \<open>
  A vector store class: \<^verbatim>\<open>from_documents\<close> builds a store (or raises), and
  \<^verbatim>\<open>delete_collection\<close> releases one (\<open>Some e\<close> when it raises \<open>e\<close>).
\<close>

record vectorstore_api =
  from_documents :: "document list \<Rightarrow> embeddings \<Rightarrow> error + vectorstore"
  delete_collection :: "vectorstore \<Rightarrow> error option"

text \<open>
  Everything the module imports and calls but does not define: the constructors of the
  Google clients, the Chroma class, the prompt file, the constructor of a prompt
  template (\<open>PromptTemplate env template input_variables partial_variables\<close> is
  \<open>Some e\<close> when it raises \<open>e\<close>, as it does on a template it cannot parse), the JSON
  output parser of the library (its \<^verbatim>\<open>parse\<close> and the format instructions it derives
  from a schema), and the constructor of a pydantic class: \<open>pydantic env s kwargs\<close>
  holds when \<^verbatim>\<open>s(**kwargs)\<close> returns and does not raise a validation error.
\<close>

record environment =
  GoogleGenerativeAI :: "string \<Rightarrow> error + llm"
  GoogleGenerativeAIEmbeddings :: "string \<Rightarrow> error + embeddings"
  Chroma :: vectorstore_api
  read_text_file :: "string \<Rightarrow> error + string"
  PromptTemplate :: "string \<Rightarrow> string list \<Rightarrow> (string \<times> string) list \<Rightarrow> error option"
  json_parse :: "string \<Rightarrow> error + json"
  format_instructions :: "schema \<Rightarrow> string"
  pydantic :: "schema \<Rightarrow> (string \<times> json) list \<Rightarrow> bool"

text \<open>Observable calls on the external providers, in the order they happen.\<close>

datatype event =
    FromDocuments "document list"
  | ChainInvoke string
  | DeleteCollection vectorstore

section \<open>The quiz builder\<close>

record QuizBuilder =
  question_type :: string
  prompt :: string
  model :: llm
  parser :: output_parser
  embedding_model :: embeddings
  vectorstore_class :: vectorstore_api
  vectorstore :: "vectorstore option"
  retriever :: "vectorstore option"
  runner :: "vectorstore option"
  topic :: string
  lang :: string
  verbose :: bool

text \<open>\<^verbatim>\<open>JsonOutputParser(pydantic_object=schema)\<close>.\<close>

definition JsonOutputParser :: "environment \<Rightarrow> schema \<Rightarrow> output_parser" where
  "JsonOutputParser env s =
     \<lparr>pydantic_object = Some s,
      get_format_instructions = Inr (format_instructions env s),
      parse = json_parse env\<rparr>"

text \<open>The dictionary literal of \<^verbatim>\<open>get_parser_for_question_type\<close>, entry by entry.\<close>

definition schema_mapping :: "(string \<times> schema) list" where
  "schema_mapping =
     [(''fill_in_the_blank'', FillInTheBlankQuestion),
      (''open_ended'', OpenEndedQuestion),
      (''true_false'', TrueFalseQuestion),
      (''multiple_choice'', MultipleChoiceQuestion),
      (''relate_concepts'', RelateConceptsQuestion),
      (''math_exercises'', MathExerciseQuestion),
      (''default'', MultipleChoiceQuestion)]"

definition get_parser_for_question_type :: "environment \<Rightarrow> string \<Rightarrow> error + output_parser" where
  "get_parser_for_question_type env qt =
     (case map_of schema_mapping qt of
        None \<Rightarrow> Inl (ValueError (''Unsupported question type: '' @ qt))
      | Some s \<Rightarrow> Inr (JsonOutputParser env s))"

text \<open>
  Python's \<^verbatim>\<open>x or default\<close> on an optional argument: \<^verbatim>\<open>None\<close> is falsy, and so
  is the empty string for the prompt.
\<close>

definition py_or :: "'a option \<Rightarrow> 'a \<Rightarrow> 'a" where
  "py_or x d = (case x of None \<Rightarrow> d | Some v \<Rightarrow> v)"

definition py_or_str :: "string option \<Rightarrow> string \<Rightarrow> string" where
  "py_or_str x d = (case x of None \<Rightarrow> d | Some v \<Rightarrow> (if v = [] then d else v))"

text \<open>
  \<^verbatim>\<open>QuizBuilder.__init__\<close>. The dictionary \<^verbatim>\<open>default_config\<close> is evaluated first, entry
  by entry, so each of its constructors runs (and may raise) whatever the caller passed;
  the two \<^verbatim>\<open>None\<close> checks come last.
\<close>

definition QuizBuilder_init ::
  "environment \<Rightarrow> string option \<Rightarrow> string \<Rightarrow> string \<Rightarrow> vectorstore_api option \<Rightarrow>
   string option \<Rightarrow> embeddings option \<Rightarrow> llm option \<Rightarrow> output_parser option \<Rightarrow> bool \<Rightarrow>
   error + QuizBuilder" where
  "QuizBuilder_init env topic_arg qt lang_arg vectorstore_class_arg prompt_arg
       embedding_model_arg model_arg parser_arg verbose_arg =
     (case GoogleGenerativeAI env ''gemini-1.5-pro'' of
        Inl e \<Rightarrow> Inl e
      | Inr default_model \<Rightarrow>
     (case GoogleGenerativeAIEmbeddings env ''models/embedding-001'' of
        Inl e \<Rightarrow> Inl e
      | Inr default_embedding \<Rightarrow>
     (case get_parser_for_question_type env qt of
        Inl e \<Rightarrow> Inl e
      | Inr default_parser \<Rightarrow>
     (case read_text_file env ''prompt/quizzify-prompt.txt'' of
        Inl e \<Rightarrow> Inl e
      | Inr default_prompt \<Rightarrow>
     (case vectorstore_class_arg of
        None \<Rightarrow> Inl (ValueError ''Vectorstore must be provided'')
      | Some vc \<Rightarrow>
     (case topic_arg of
        None \<Rightarrow> Inl (ValueError ''Topic must be provided'')
      | Some t \<Rightarrow>
          Inr \<lparr>question_type = qt,
               prompt = py_or_str prompt_arg default_prompt,
               model = py_or model_arg default_model,
               parser = py_or parser_arg default_parser,
               embedding_model = py_or embedding_model_arg default_embedding,
               vectorstore_class = vc,
               vectorstore = None,
               retriever = None,
               runner = None,
               topic = t,
               lang = lang_arg,
               verbose = verbose_arg\<rparr>))))))"

text \<open>
  The chain \<^verbatim>\<open>self.runner | prompt | self.model | self.parser\<close> that \<^verbatim>\<open>compile\<close>
  returns, and one \<^verbatim>\<open>chain.invoke\<close>: an exception of any stage propagates to the caller.
\<close>

record chain =
  chain_runner :: "vectorstore option"
  chain_template :: string
  chain_format_instructions :: string
  chain_model :: llm
  chain_parser :: output_parser

definition invoke :: "chain \<Rightarrow> string \<Rightarrow> nat \<Rightarrow> error + json" where
  "invoke c input k =
     (case chain_model c input k of
        Inl e \<Rightarrow> Inl e
      | Inr text \<Rightarrow> parse (chain_parser c) text)"

definition make_chain :: "QuizBuilder \<Rightarrow> string \<Rightarrow> chain" where
  "make_chain b fi =
     \<lparr>chain_runner = runner b,
      chain_template = prompt b,
      chain_format_instructions = fi,
      chain_model = model b,
      chain_parser = parser b\<rparr>"

text \<open>
  \<^verbatim>\<open>compile\<close>. The arguments of the prompt template are evaluated first, so the
  parser's format instructions are asked for (and may raise); then the template is
  constructed (and may raise); only then, and only while \<^verbatim>\<open>self.runner\<close> is
  \<^verbatim>\<open>None\<close>, the vector store is built. The result is the chain or the exception, the
  builder as mutated, and the provider calls made.
\<close>

definition compile ::
  "environment \<Rightarrow> QuizBuilder \<Rightarrow> document list \<Rightarrow> (error + chain) \<times> QuizBuilder \<times> event list" where
  "compile env b documents =
     (case get_format_instructions (parser b) of
        Inl e \<Rightarrow> (Inl e, b, [])
      | Inr fi \<Rightarrow>
          (case PromptTemplate env (prompt b) [''attribute_collection'']
                  [(''format_instructions'', fi)] of
             Some e \<Rightarrow> (Inl e, b, [])
           | None \<Rightarrow>
               (case runner b of
                  None \<Rightarrow>
                    (case from_documents (vectorstore_class b) documents (embedding_model b) of
                       Inl e \<Rightarrow> (Inl e, b, [FromDocuments documents])
                     | Inr vs \<Rightarrow>
                         (let b' = b\<lparr>vectorstore := Some vs, retriever := Some vs, runner := Some vs\<rparr>
                          in (Inr (make_chain b' fi), b', [FromDocuments documents])))
                | Some r \<Rightarrow> (Inr (make_chain b fi), b, []))))"

text \<open>
  \<^verbatim>\<open>validate_question\<close>: the schema is resolved again from the question type and
  called with the response as keyword arguments; every exception (an unsupported type,
  a response that is no mapping, a validation error) is caught and gives \<^verbatim>\<open>False\<close>.
\<close>

definition validate_question :: "environment \<Rightarrow> QuizBuilder \<Rightarrow> json \<Rightarrow> bool" where
  "validate_question env b result =
     (case get_parser_for_question_type env (question_type b) of
        Inl e \<Rightarrow> False
      | Inr p \<Rightarrow>
          (case pydantic_object p of
             None \<Rightarrow> False
           | Some s \<Rightarrow>
               (case result of
                  JDict kwargs \<Rightarrow> pydantic env s kwargs
                | _ \<Rightarrow> False)))"

text \<open>Python's substring test \<^verbatim>\<open>sub in s\<close> on strings.\<close>

fun starts_with :: "string \<Rightarrow> string \<Rightarrow> bool" where
  "starts_with [] s = True"
| "starts_with (c # cs) [] = False"
| "starts_with (c # cs) (d # ds) = (c = d \<and> starts_with cs ds)"

fun contains :: "string \<Rightarrow> string \<Rightarrow> bool" where
  "contains sub [] = (sub = [])"
| "contains sub (c # cs) = (starts_with sub (c # cs) \<or> contains sub cs)"

text \<open>
  Lines 133 and 134:
  \<^verbatim>\<open>if "model_config" in response: del response["model_config"]\<close>.
  On a dictionary the key is deleted when present. On a list the test is element
  membership and the deletion raises; on a string it is the substring test and the
  deletion raises; on any other value the test itself raises.
\<close>

fun strip_model_config :: "json \<Rightarrow> error + json" where
  "strip_model_config (JDict d) =
     (if map_of d ''model_config'' \<noteq> None
      then Inr (JDict (filter (\<lambda>kv. fst kv \<noteq> ''model_config'') d))
      else Inr (JDict d))"
| "strip_model_config (JList xs) =
     (if JStr ''model_config'' \<in> set xs
      then Inl (TypeError ''list indices must be integers or slices, not str'')
      else Inr (JList xs))"
| "strip_model_config (JStr s) =
     (if contains ''model_config'' s
      then Inl (TypeError ''str object does not support item deletion'')
      else Inr (JStr s))"
| "strip_model_config v = Inl (TypeError ''argument is not iterable'')"

text \<open>The chain input, an f-string of three attributes.\<close>

definition query :: "QuizBuilder \<Rightarrow> string" where
  "query b = ''Topic: '' @ topic b @ '', Lang: '' @ lang b @ '', Question type: '' @ question_type b"

text \<open>
  The \<^verbatim>\<open>while\<close> loop of \<^verbatim>\<open>create_questions\<close> (lines 128 to 145), from the state
  \<open>(generated_questions, attempts)\<close>. It returns the accumulated list, or the exception
  that left the loop, together with the number of \<^verbatim>\<open>chain.invoke\<close> calls made since
  \<open>attempts = 0\<close>.
\<close>

function generation_loop ::
  "environment \<Rightarrow> QuizBuilder \<Rightarrow> chain \<Rightarrow> int \<Rightarrow> int \<Rightarrow> json list \<Rightarrow> int \<Rightarrow> (error + json list) \<times> int" where
  "generation_loop env b c num_questions max_attempts generated_questions attempts =
     (if int (length generated_questions) < num_questions \<and> attempts < max_attempts then
        (case invoke c (query b) (nat attempts) of
           Inl e \<Rightarrow> (Inl e, attempts + 1)
         | Inr response \<Rightarrow>
             (case strip_model_config response of
                Inl e \<Rightarrow> (Inl e, attempts + 1)
              | Inr response' \<Rightarrow>
                  generation_loop env b c num_questions max_attempts
                    (if validate_question env b response'
                     then generated_questions @ [response']
                     else generated_questions)
                    (attempts + 1)))
      else (Inr generated_questions, attempts))"
  by pat_completeness auto
termination
  by (relation "measure (\<lambda>(env, b, c, n, m, g, a). nat (m - a))") auto

declare generation_loop.simps [simp del]

text \<open>Python's slice \<^verbatim>\<open>xs[:n]\<close>; a negative \<open>n\<close> counts from the end.\<close>

definition slice_to :: "'a list \<Rightarrow> int \<Rightarrow> 'a list" where
  "slice_to xs n = (if 0 \<le> n then take (nat n) xs else take (length xs - nat (- n)) xs)"

text \<open>
  \<^verbatim>\<open>create_questions\<close>. Logging, the only use of \<^verbatim>\<open>verbose\<close>, has no effect on
  the result and is left out. Over ten questions the method returns a message dictionary
  before anything else happens. Otherwise it compiles the chain, runs the loop, calls
  \<^verbatim>\<open>self.vectorstore.delete_collection()\<close> and returns the slice. There is no
  \<^verbatim>\<open>try\<close> in the method: an exception of \<^verbatim>\<open>compile\<close> or of the loop leaves it at once.
\<close>

definition create_questions ::
  "environment \<Rightarrow> QuizBuilder \<Rightarrow> document list \<Rightarrow> int \<Rightarrow> (error + json) \<times> QuizBuilder \<times> event list" where
  "create_questions env b documents num_questions =
     (if num_questions > 10 then
        (Inr (JDict [(''message'', JStr ''error''),
                     (''data'', JStr ''Number of questions cannot exceed 10'')]), b, [])
      else
        (case compile env b documents of
           (Inl e, b', tr) \<Rightarrow> (Inl e, b', tr)
         | (Inr c, b', tr) \<Rightarrow>
             (case generation_loop env b' c num_questions (num_questions * 5) [] 0 of
                (Inl e, k) \<Rightarrow> (Inl e, b', tr @ replicate (nat k) (ChainInvoke (query b')))
              | (Inr generated_questions, k) \<Rightarrow>
                  (case vectorstore b' of
                     None \<Rightarrow>
                       (Inl (AttributeError ''NoneType object has no attribute delete_collection''),
                        b', tr @ replicate (nat k) (ChainInvoke (query b')))
                   | Some vs \<Rightarrow>
                       (case delete_collection (vectorstore_class b') vs of
                          Some e \<Rightarrow>
                            (Inl e, b',
                             tr @ replicate (nat k) (ChainInvoke (query b')) @ [DeleteCollection vs])
                        | None \<Rightarrow>
                            (Inr (JList (slice_to generated_questions num_questions)), b',
                             tr @ replicate (nat k) (ChainInvoke (query b')) @ [DeleteCollection vs]))))))"

text \<open>Counting the provider calls of a trace.\<close>

fun is_invoke :: "event \<Rightarrow> bool" where
  "is_invoke (ChainInvoke q) = True"
| "is_invoke e = False"

fun is_release :: "event \<Rightarrow> bool" where
  "is_release (DeleteCollection vs) = True"
| "is_release e = False"

fun is_build :: "event \<Rightarrow> bool" where
  "is_build (FromDocuments ds) = True"
| "is_build e = False"

definition attempts_made :: "event list \<Rightarrow> nat" where
  "attempts_made tr = length (filter is_invoke tr)"

definition releases :: "event list \<Rightarrow> nat" where
  "releases tr = length (filter is_release tr)"

definition builds :: "event list \<Rightarrow> nat" where
  "builds tr = length (filter is_build tr)"

text \<open>
  One pass through the loop body at attempt \<open>k\<close>, as the loop sees it: the chain or
  the normalisation raised, or the candidate was rejected by validation, or it was
  accepted (in its normalised form).
\<close>

datatype outcome = Raised error | Rejected | Accepted json

definition attempt :: "environment \<Rightarrow> QuizBuilder \<Rightarrow> chain \<Rightarrow> nat \<Rightarrow> outcome" where
  "attempt env b c k =
     (case invoke c (query b) k of
        Inl e \<Rightarrow> Raised e
      | Inr response \<Rightarrow>
          (case strip_model_config response of
             Inl e \<Rightarrow> Raised e
           | Inr response' \<Rightarrow>
               (if validate_question env b response' then Accepted response' else Rejected)))"

section \<open>Schemas as declared, and test doubles\<close>

text \<open>
  The field declarations of the schema classes (lines 155 to 338): every annotated field
  is required, of type \<^verbatim>\<open>str\<close>, \<^verbatim>\<open>bool\<close>, a list, or a nested class (the class
  attribute \<^verbatim>\<open>model_config\<close> has a value and is not required).
  \<open>declared_fields_accept\<close> reads them strictly (each declared field present and of
  the declared JSON kind, other keys ignored). It is the instance of the \<open>pydantic\<close>
  parameter on which concrete scenarios are run; the theorems hold for any instance.
\<close>

datatype ftype = TStr | TBool | TList ftype | TModel "(string \<times> ftype) list"

definition QuestionBlank :: ftype where
  "QuestionBlank = TModel [(''key'', TStr), (''value'', TStr)]"

definition QuestionChoice :: ftype where
  "QuestionChoice = TModel [(''key'', TStr), (''value'', TStr)]"

definition TermMeaningPair :: ftype where
  "TermMeaningPair = TModel [(''term'', TStr), (''meaning'', TStr)]"

fun declared_fields :: "schema \<Rightarrow> (string \<times> ftype) list" where
  "declared_fields FillInTheBlankQuestion =
     [(''question'', TStr), (''blanks'', TList QuestionBlank),
      (''word_bank'', TList TStr), (''explanation'', TStr)]"
| "declared_fields OpenEndedQuestion =
     [(''question'', TStr), (''answer'', TStr), (''feedback'', TList TStr)]"
| "declared_fields TrueFalseQuestion =
     [(''question'', TStr), (''answer'', TBool), (''explanation'', TStr)]"
| "declared_fields MultipleChoiceQuestion =
     [(''question'', TStr), (''choices'', TList QuestionChoice),
      (''answer'', TStr), (''explanation'', TStr)]"
| "declared_fields RelateConceptsQuestion =
     [(''question'', TStr), (''pairs'', TList TermMeaningPair),
      (''answer'', TList TermMeaningPair), (''explanation'', TStr)]"
| "declared_fields MathExerciseQuestion =
     [(''question'', TStr), (''solution'', TStr),
      (''correct_answer'', TStr), (''explanation'', TStr)]"

fun conforms :: "ftype \<Rightarrow> json \<Rightarrow> bool" where
  "conforms TStr v = (case v of JStr s \<Rightarrow> True | _ \<Rightarrow> False)"
| "conforms TBool v = (case v of JBool b \<Rightarrow> True | _ \<Rightarrow> False)"
| "conforms (TList t) v = (case v of JList xs \<Rightarrow> list_all (conforms t) xs | _ \<Rightarrow> False)"
| "conforms (TModel fs) v =
     (case v of
        JDict d \<Rightarrow> list_all (\<lambda>(k, t). case map_of d k of None \<Rightarrow> False | Some x \<Rightarrow> conforms t x) fs
      | _ \<Rightarrow> False)"

definition declared_fields_accept :: "schema \<Rightarrow> (string \<times> json) list \<Rightarrow> bool" where
  "declared_fields_accept s kwargs = conforms (TModel (declared_fields s)) (JDict kwargs)"

text \<open>
  Test doubles for concrete scenarios: a model that answers \<open>early\<close> on its first \<open>j\<close>
  invocations and \<open>late\<close> afterwards; a parser that knows three replies by name and
  raises on any other text, as the JSON parser does on malformed text; the
  fill-in-the-blank example of the source (lines 170 to 179); a vector store that builds
  and releases without raising; and the builder that the constructor returns for a
  fill-in-the-blank request on the topic Paris, before and after \<^verbatim>\<open>compile\<close>.
\<close>

definition switching_model :: "nat \<Rightarrow> error + string \<Rightarrow> error + string \<Rightarrow> llm" where
  "switching_model j early late = (\<lambda>input k. if k < j then early else late)"

definition table_parse :: "(string \<times> json) list \<Rightarrow> string \<Rightarrow> error + json" where
  "table_parse table text =
     (case map_of table text of
        None \<Rightarrow> Inl (OutputParserException (''Invalid json output: '' @ text))
      | Some v \<Rightarrow> Inr v)"

definition blank_fields :: "(string \<times> json) list" where
  "blank_fields =
     [(''question'', JStr ''The {0} of France is {1}, and it is known for its {2} and {3} {4}.''),
      (''blanks'', JList [JDict [(''key'', JStr ''0''), (''value'', JStr ''capital'')],
                          JDict [(''key'', JStr ''1''), (''value'', JStr ''Paris'')],
                          JDict [(''key'', JStr ''2''), (''value'', JStr ''art'')],
                          JDict [(''key'', JStr ''3''), (''value'', JStr ''culinary'')],
                          JDict [(''key'', JStr ''4''), (''value'', JStr ''delights'')]]),
      (''word_bank'', JList [JStr ''delights'', JStr ''art'', JStr ''Paris'', JStr ''culinary'', JStr ''capital'']),
      (''explanation'', JStr ''Paris is the capital of France, and it is renowned for its contributions to art and its exceptional culinary scene.'')]"

definition blank_example :: json where
  "blank_example = JDict blank_fields"

definition test_replies :: "(string \<times> json) list" where
  "test_replies =
     [(''empty object'', JDict []),
      (''blank example'', blank_example),
      (''blank example with model_config'', JDict ((''model_config'', JDict []) # blank_fields))]"

definition test_store :: vectorstore_api where
  "test_store = \<lparr>from_documents = (\<lambda>ds e. Inr (length ds)), delete_collection = (\<lambda>vs. None)\<rparr>"

definition test_env :: "llm \<Rightarrow> environment" where
  "test_env m =
     \<lparr>GoogleGenerativeAI = (\<lambda>name. Inr m),
      GoogleGenerativeAIEmbeddings = (\<lambda>name. Inr name),
      Chroma = test_store,
      read_text_file = (\<lambda>path. Inr ''Context: {context} {format_instructions} {attribute_collection}''),
      PromptTemplate = (\<lambda>t vars partial. if t = ''{'' then Some (ValueError ''Invalid prompt template'') else None),
      json_parse = table_parse test_replies,
      format_instructions = (\<lambda>s. ''Return a JSON object.''),
      pydantic = declared_fields_accept\<rparr>"

definition test_builder :: "llm \<Rightarrow> QuizBuilder" where
  "test_builder m =
     \<lparr>question_type = ''fill_in_the_blank'',
      prompt = ''Context: {context} {format_instructions} {attribute_collection}'',
      model = m,
      parser = JsonOutputParser (test_env m) FillInTheBlankQuestion,
      embedding_model = ''models/embedding-001'',
      vectorstore_class = test_store,
      vectorstore = None,
      retriever = None,
      runner = None,
      topic = ''Paris'',
      lang = ''en'',
      verbose = True\<rparr>"

definition rejected_model :: llm where
  "rejected_model = switching_model 0 (Inr ''empty object'') (Inr ''empty object'')"

definition raising_model :: llm where
  "raising_model = switching_model 0 (Inl (ProviderError ''model call failed'')) (Inl (ProviderError ''model call failed''))"

definition malformed_then_valid_model :: llm where
  "malformed_then_valid_model = switching_model 4 (Inr ''not json'') (Inr ''blank example'')"

definition rejected_then_valid_model :: llm where
  "rejected_then_valid_model = switching_model 4 (Inr ''empty object'') (Inr ''blank example'')"

definition test_compiled :: "llm \<Rightarrow> QuizBuilder" where
  "test_compiled m = (test_builder m)\<lparr>vectorstore := Some 1, retriever := Some 1, runner := Some 1\<rparr>"

definition test_chain :: "llm \<Rightarrow> chain" where
  "test_chain m = make_chain (test_compiled m) ''Return a JSON object.''"

definition test_query :: string where
  "test_query = ''Topic: Paris, Lang: en, Question type: fill_in_the_blank''"

definition tagged_model :: llm where
  "tagged_model = switching_model 0 (Inr ''blank example with model_config'') (Inr ''blank example with model_config'')"


text \<open>
  A vector store class whose release raises, and the builder constructed with it as
  \<^verbatim>\<open>vectorstore_class\<close>, before and after \<^verbatim>\<open>compile\<close>.
\<close>

definition failing_release_store :: vectorstore_api where
  "failing_release_store =
     \<lparr>from_documents = (\<lambda>ds e. Inr (length ds)),
      delete_collection = (\<lambda>vs. Some (ProviderError ''collection could not be deleted''))\<rparr>"

definition unreleasable_builder :: "llm \<Rightarrow> QuizBuilder" where
  "unreleasable_builder m = (test_builder m)\<lparr>vectorstore_class := failing_release_store\<rparr>"

definition unreleasable_compiled :: "llm \<Rightarrow> QuizBuilder" where
  "unreleasable_compiled m =
     (unreleasable_builder m)\<lparr>vectorstore := Some 1, retriever := Some 1, runner := Some 1\<rparr>"

section \<open>The loop, step by step\<close>

lemma loop_exit:
  "\<not> (int (length g) < n \<and> a < m) \<Longrightarrow> generation_loop env b c n m g a = (Inr g, a)"
  by (subst generation_loop.simps) auto

lemma loop_raised:
  "int (length g) < n \<Longrightarrow> a < m \<Longrightarrow> attempt env b c (nat a) = Raised e \<Longrightarrow>
   generation_loop env b c n m g a = (Inl e, a + 1)"
  by (subst generation_loop.simps) (auto simp: attempt_def split: sum.splits if_splits)

lemma loop_rejected:
  "int (length g) < n \<Longrightarrow> a < m \<Longrightarrow> attempt env b c (nat a) = Rejected \<Longrightarrow>
   generation_loop env b c n m g a = generation_loop env b c n m g (a + 1)"
  by (subst generation_loop.simps) (auto simp: attempt_def split: sum.splits if_splits)

lemma loop_accepted:
  "int (length g) < n \<Longrightarrow> a < m \<Longrightarrow> attempt env b c (nat a) = Accepted r \<Longrightarrow>
   generation_loop env b c n m g a = generation_loop env b c n m (g @ [r]) (a + 1)"
  by (subst generation_loop.simps) (auto simp: attempt_def split: sum.splits if_splits)

lemma loop_induct [consumes 0, case_names exit raised rejected accepted]:
  assumes "\<And>g a. \<not> (int (length g) < n \<and> a < m) \<Longrightarrow> P g a"
    and "\<And>g a e. int (length g) < n \<Longrightarrow> a < m \<Longrightarrow> attempt env b c (nat a) = Raised e \<Longrightarrow> P g a"
    and "\<And>g a. int (length g) < n \<Longrightarrow> a < m \<Longrightarrow> attempt env b c (nat a) = Rejected \<Longrightarrow>
           P g (a + 1) \<Longrightarrow> P g a"
    and "\<And>g a r. int (length g) < n \<Longrightarrow> a < m \<Longrightarrow> attempt env b c (nat a) = Accepted r \<Longrightarrow>
           P (g @ [r]) (a + 1) \<Longrightarrow> P g a"
  shows "P g (a::int)"
proof (induction "nat (m - a)" arbitrary: g a rule: less_induct)
  case less
  show ?case
  proof (cases "int (length g) < n \<and> a < m")
    case False
    then show ?thesis by (rule assms(1))
  next
    case True
    then have len: "int (length g) < n" and lt: "a < m" by simp_all
    from lt have dec: "nat (m - (a + 1)) < nat (m - a)" by simp
    show ?thesis
    proof (cases "attempt env b c (nat a)")
      case (Raised e)
      with len lt show ?thesis by (rule assms(2))
    next
      case Rejected
      from len lt Rejected less[OF dec] show ?thesis by (rule assms(3))
    next
      case (Accepted r)
      from len lt Accepted less[OF dec] show ?thesis by (rule assms(4))
    qed
  qed
qed


lemma loop_length_bound:
  "generation_loop env b c n m g a = (Inr gen, k) \<Longrightarrow> int (length gen) \<le> max (int (length g)) n"
proof (induction g a rule: loop_induct[where n = n and m = m and env = env and b = b and c = c])
  case (exit g a)
  then show ?case by (simp add: loop_exit)
next
  case (raised g a e)
  then show ?case by (auto simp: loop_raised)
next
  case (rejected g a)
  then show ?case by (auto simp: loop_rejected)
next
  case (accepted g a r)
  then show ?case by (auto simp: loop_accepted)
qed

lemma attempt_accepted_valid:
  "attempt env b c k = Accepted r \<Longrightarrow> validate_question env b r"
  by (auto simp: attempt_def split: sum.splits if_splits)

lemma loop_all_valid:
  "generation_loop env b c n m g a = (Inr gen, k) \<Longrightarrow> list_all (validate_question env b) g \<Longrightarrow>
   list_all (validate_question env b) gen"
proof (induction g a rule: loop_induct[where n = n and m = m and env = env and b = b and c = c])
  case (exit g a)
  then show ?case by (simp add: loop_exit)
next
  case (raised g a e)
  then show ?case by (auto simp: loop_raised)
next
  case (rejected g a)
  then show ?case by (auto simp: loop_rejected)
next
  case (accepted g a r)
  then show ?case by (auto simp: loop_accepted attempt_accepted_valid)
qed

lemma loop_all_rejected:
  "(\<And>k. attempt env b c k = Rejected) \<Longrightarrow>
   generation_loop env b c n m g a = (Inr g, if int (length g) < n then max a m else a)"
proof (induction g a rule: loop_induct[where n = n and m = m and env = env and b = b and c = c])
  case (exit g a)
  then show ?case by (auto simp: loop_exit)
next
  case (raised g a e)
  then show ?case by simp
next
  case (rejected g a)
  then show ?case by (auto simp: loop_rejected)
next
  case (accepted g a r)
  then show ?case by simp
qed

lemma loop_short_exhausted:
  "generation_loop env b c n m g a = (Inr gen, k) \<Longrightarrow> int (length gen) < n \<Longrightarrow> a \<le> m \<Longrightarrow> k = m"
proof (induction g a rule: loop_induct[where n = n and m = m and env = env and b = b and c = c])
  case (exit g a)
  then show ?case by (auto simp: loop_exit)
next
  case (raised g a e)
  then show ?case by (auto simp: loop_raised)
next
  case (rejected g a)
  then show ?case by (auto simp: loop_rejected)
next
  case (accepted g a r)
  then show ?case by (auto simp: loop_accepted)
qed

lemma loop_rejected_then_accepted:
  "a \<le> j \<Longrightarrow> j < m \<Longrightarrow> 0 \<le> a \<Longrightarrow>
   (\<And>k. nat a \<le> k \<Longrightarrow> k < nat j \<Longrightarrow> attempt env b c k = Rejected) \<Longrightarrow>
   attempt env b c (nat j) = Accepted r \<Longrightarrow>
   generation_loop env b c 1 m [] a = (Inr [r], j + 1)"
proof (induction "nat (j - a)" arbitrary: a)
  case 0
  then have "a = j" by simp
  with 0 show ?case by (simp add: loop_accepted loop_exit)
next
  case (Suc d)
  then have lt: "a < j" by simp
  with Suc.prems have rej: "attempt env b c (nat a) = Rejected" by simp
  have "generation_loop env b c 1 m [] a = generation_loop env b c 1 m [] (a + 1)"
    using lt Suc.prems rej by (simp add: loop_rejected)
  also have "\<dots> = (Inr [r], j + 1)"
    using Suc.hyps(2) lt Suc.prems by (intro Suc.hyps(1)) auto
  finally show ?case .
qed

section \<open>The method, case by case\<close>

lemma compile_trace:
  "compile env b documents = (res, b', tr) \<Longrightarrow> tr = [] \<or> tr = [FromDocuments documents]"
  by (auto simp: compile_def Let_def split: sum.splits option.splits)

lemma compile_question_type:
  "compile env b documents = (res, b', tr) \<Longrightarrow> question_type b' = question_type b"
  by (auto simp: compile_def Let_def split: sum.splits option.splits)

lemma validate_question_cong:
  "question_type b' = question_type b \<Longrightarrow> validate_question env b' = validate_question env b"
  by (rule ext) (simp add: validate_question_def)

lemma attempts_made_simps:
  "attempts_made [] = 0"
  "attempts_made (xs @ ys) = attempts_made xs + attempts_made ys"
  "attempts_made (replicate k (ChainInvoke q)) = k"
  "attempts_made [DeleteCollection vs] = 0"
  "attempts_made [FromDocuments ds] = 0"
  by (simp_all add: attempts_made_def)

lemma compile_no_attempts:
  "compile env b documents = (res, b', tr) \<Longrightarrow> attempts_made tr = 0"
  by (drule compile_trace) (auto simp: attempts_made_simps)

lemma create_questions_unfold:
  assumes "n \<le> 10" and "compile env b documents = (Inr c, b', tr)"
    and "generation_loop env b' c n (n * 5) [] 0 = (res, k)"
  shows "create_questions env b documents n =
     (case res of
        Inl e \<Rightarrow> (Inl e, b', tr @ replicate (nat k) (ChainInvoke (query b')))
      | Inr gen \<Rightarrow>
          (case vectorstore b' of
             None \<Rightarrow> (Inl (AttributeError ''NoneType object has no attribute delete_collection''),
                       b', tr @ replicate (nat k) (ChainInvoke (query b')))
           | Some vs \<Rightarrow>
               (case delete_collection (vectorstore_class b') vs of
                  Some e \<Rightarrow> (Inl e, b', tr @ replicate (nat k) (ChainInvoke (query b')) @ [DeleteCollection vs])
                | None \<Rightarrow> (Inr (JList (slice_to gen n)), b',
                            tr @ replicate (nat k) (ChainInvoke (query b')) @ [DeleteCollection vs]))))"
  using assms by (simp add: create_questions_def split: sum.splits)

lemma create_questions_attempts:
  assumes "n \<le> 10" and "compile env b documents = (Inr c, b', tr)"
    and "generation_loop env b' c n (n * 5) [] 0 = (res, k)"
  shows "attempts_made (snd (snd (create_questions env b documents n))) = nat k"
  using compile_no_attempts[OF assms(2)]
  by (simp add: create_questions_unfold[OF assms] attempts_made_simps split: sum.splits option.splits)

lemma list_all_slice_to:
  "list_all P xs \<Longrightarrow> list_all P (slice_to xs n)"
  by (auto simp: slice_to_def list_all_iff dest: in_set_takeD)

lemma length_slice_to:
  "int (length xs) \<le> max 0 n \<Longrightarrow> length (slice_to xs n) \<le> nat n"
  by (auto simp: slice_to_def)

lemma filter_absent_key:
  "map_of d k = None \<Longrightarrow> filter (\<lambda>kv. fst kv \<noteq> k) d = d"
  by (induction d) (auto split: if_splits)

lemma map_of_filter_key:
  "map_of (filter (\<lambda>kv. fst kv \<noteq> k) d) k' = (if k' = k then None else map_of d k')"
  by (induction d) auto

section \<open>The test doubles, evaluated\<close>

lemma init_test_builder:
  "QuizBuilder_init (test_env m) (Some ''Paris'') ''fill_in_the_blank'' ''en''
     (Some (Chroma (test_env m))) None None None None True = Inr (test_builder m)"
  by (simp add: QuizBuilder_init_def test_env_def test_builder_def get_parser_for_question_type_def
      schema_mapping_def py_or_def py_or_str_def)

lemma compile_test_builder:
  "compile (test_env m) (test_builder m) [d] = (Inr (test_chain m), test_compiled m, [FromDocuments [d]])"
  by (simp add: compile_def Let_def test_builder_def test_compiled_def test_chain_def
      JsonOutputParser_def test_env_def test_store_def)

lemma test_compiled_store:
  "vectorstore (test_compiled m) = Some 1"
  "delete_collection (vectorstore_class (test_compiled m)) vs = None"
  "query (test_compiled m) = test_query"
  by (simp_all add: test_compiled_def test_builder_def test_store_def query_def test_query_def)

lemma invoke_test_chain:
  "invoke (test_chain m) q k =
     (case m q k of Inl e \<Rightarrow> Inl e | Inr text \<Rightarrow> table_parse test_replies text)"
  by (simp add: invoke_def test_chain_def make_chain_def test_compiled_def test_builder_def
      JsonOutputParser_def test_env_def split: sum.splits)

lemma validate_test_fill:
  "validate_question (test_env m) (test_compiled m) (JDict kwargs) =
     declared_fields_accept FillInTheBlankQuestion kwargs"
  by (simp add: validate_question_def get_parser_for_question_type_def schema_mapping_def
      JsonOutputParser_def test_env_def test_compiled_def test_builder_def)

lemma parse_empty_object: "table_parse test_replies ''empty object'' = Inr (JDict [])"
  by (simp add: table_parse_def test_replies_def)

lemma parse_blank_example: "table_parse test_replies ''blank example'' = Inr blank_example"
  by (simp add: table_parse_def test_replies_def)

lemma parse_not_json:
  "table_parse test_replies ''not json'' = Inl (OutputParserException ''Invalid json output: not json'')"
  by (simp add: table_parse_def test_replies_def)

lemma empty_object_rejected: "\<not> declared_fields_accept FillInTheBlankQuestion []"
  by (simp add: declared_fields_accept_def)

lemma blank_example_accepted:
  "strip_model_config blank_example = Inr blank_example"
  "validate_question (test_env m) (test_compiled m) blank_example"
  by (simp_all add: validate_test_fill blank_example_def blank_fields_def declared_fields_accept_def QuestionBlank_def)

lemma attempt_rejected_model:
  "attempt (test_env rejected_model) (test_compiled rejected_model)
     (test_chain rejected_model) k = Rejected"
  by (simp add: attempt_def invoke_test_chain rejected_model_def switching_model_def
      parse_empty_object validate_test_fill empty_object_rejected)

lemma attempt_rejected_then_valid:
  "attempt (test_env rejected_then_valid_model) (test_compiled rejected_then_valid_model)
     (test_chain rejected_then_valid_model) k =
       (if k < 4 then Rejected else Accepted blank_example)"
  by (simp add: attempt_def invoke_test_chain rejected_then_valid_model_def switching_model_def
      parse_empty_object parse_blank_example blank_example_accepted validate_test_fill empty_object_rejected)

lemma attempt_cong:
  "query b = query b' \<Longrightarrow> question_type b = question_type b' \<Longrightarrow>
   attempt env b c k = attempt env b' c k"
  using validate_question_cong [of b b' env] by (simp add: attempt_def split: sum.splits)

lemma compile_test_compiled:
  "compile (test_env m) (test_compiled m) [d] = (Inr (test_chain m), test_compiled m, [])"
  by (simp add: compile_def test_builder_def test_compiled_def test_chain_def
      JsonOutputParser_def test_env_def)

lemma compile_unreleasable_builder:
  "compile (test_env m) (unreleasable_builder m) [d] =
     (Inr (test_chain m), unreleasable_compiled m, [FromDocuments [d]])"
  by (simp add: compile_def Let_def unreleasable_builder_def unreleasable_compiled_def
      test_builder_def test_compiled_def test_chain_def make_chain_def JsonOutputParser_def
      test_env_def failing_release_store_def)

lemma unreleasable_compiled_store:
  "vectorstore (unreleasable_compiled m) = Some 1"
  "delete_collection (vectorstore_class (unreleasable_compiled m)) vs
     = Some (ProviderError ''collection could not be deleted'')"
  "query (unreleasable_compiled m) = test_query"
  by (simp_all add: unreleasable_compiled_def unreleasable_builder_def test_builder_def
      failing_release_store_def query_def test_query_def)

lemma attempt_unreleasable_rejected:
  "attempt (test_env rejected_model) (unreleasable_compiled rejected_model)
     (test_chain rejected_model) k = Rejected"
proof -
  have "attempt (test_env rejected_model) (unreleasable_compiled rejected_model)
          (test_chain rejected_model) k
        = attempt (test_env rejected_model) (test_compiled rejected_model)
          (test_chain rejected_model) k"
    by (rule attempt_cong)
      (simp_all add: query_def unreleasable_compiled_def unreleasable_builder_def test_compiled_def)
  then show ?thesis by (simp add: attempt_rejected_model)
qed


lemma loop_rejected_then_valid:
  "generation_loop (test_env rejected_then_valid_model)
     (test_compiled rejected_then_valid_model)
     (test_chain rejected_then_valid_model) 1 (1 * 5) [] 0 = (Inr [blank_example], 5)"
  using loop_rejected_then_accepted [of 0 4 5 "test_env rejected_then_valid_model"
      "test_compiled rejected_then_valid_model"
      "test_chain rejected_then_valid_model" blank_example]
  by (simp add: attempt_rejected_then_valid)

section \<open>Release of the vector store\<close>

text \<open>On the paths that return a list, the store is released exactly once.\<close>

lemma create_questions_releases_once_on_return:
  "fst (create_questions env b documents n) = Inr (JList qs) \<Longrightarrow>
   releases (snd (snd (create_questions env b documents n))) = 1"
proof -
  assume ok: "fst (create_questions env b documents n) = Inr (JList qs)"
  then have le: "n \<le> 10"
    by (auto simp: create_questions_def split: if_splits)
  obtain res0 b' tr where cmp0: "compile env b documents = (res0, b', tr)"
    by (cases "compile env b documents") auto
  with ok le obtain c where cmp: "compile env b documents = (Inr c, b', tr)"
    by (cases res0) (auto simp: create_questions_def)
  obtain res k where lp: "generation_loop env b' c n (n * 5) [] 0 = (res, k)"
    by (cases "generation_loop env b' c n (n * 5) [] 0") auto
  from compile_trace [OF cmp] have "releases tr = 0"
    by (auto simp: releases_def)
  with ok show ?thesis
    by (auto simp: create_questions_unfold [OF le cmp lp] releases_def split: sum.splits option.splits)
qed

text \<open>
  Claim C1 at the input where it fails. The vector store is built, the first chain
  invocation raises, and the exception leaves \<^verbatim>\<open>create_questions\<close> before
  \<^verbatim>\<open>delete_collection\<close> is reached: the builder still holds the store and the trace has
  one build and no release.
\<close>

theorem create_questions_leaks_index_when_model_raises:
  "create_questions (test_env raising_model) (test_builder raising_model) [''doc''] 1 =
     (Inl (ProviderError ''model call failed''), test_compiled raising_model,
      [FromDocuments [''doc''], ChainInvoke test_query]) \<and>
   vectorstore (test_compiled raising_model) = Some 1 \<and>
   builds [FromDocuments [''doc''], ChainInvoke test_query] = 1 \<and>
   releases [FromDocuments [''doc''], ChainInvoke test_query] = 0"
proof -
  have at: "attempt (test_env raising_model) (test_compiled raising_model)
      (test_chain raising_model) (nat 0) = Raised (ProviderError ''model call failed'')"
    by (simp add: attempt_def invoke_test_chain raising_model_def switching_model_def)
  have lp: "generation_loop (test_env raising_model) (test_compiled raising_model)
      (test_chain raising_model) 1 (1 * 5) [] 0
        = (Inl (ProviderError ''model call failed''), 0 + 1)"
    by (rule loop_raised [OF _ _ at]) simp_all
  have le: "(1::int) \<le> 10" by simp
  show ?thesis
    by (simp add: create_questions_unfold [OF le compile_test_builder lp] test_compiled_store
        builds_def releases_def)
qed

section \<open>Failed attempts\<close>

text \<open>
  What the loop does retry: a candidate that the chain returns and validation rejects
  (required fields missing, for instance) is a failed attempt, and the loop goes on. When
  the first \<open>j < 5\<close> attempts are rejected and the next one is accepted, a call for one
  question returns that one result after exactly \<open>j + 1\<close> invocations.
\<close>

lemma rejected_attempts_then_accepted:
  "compile env b documents = (Inr c, b', tr) \<Longrightarrow> vectorstore b' = Some vs \<Longrightarrow>
   delete_collection (vectorstore_class b') vs = None \<Longrightarrow> j < 5 \<Longrightarrow>
   (\<forall>k<j. attempt env b' c k = Rejected) \<Longrightarrow> attempt env b' c j = Accepted r \<Longrightarrow>
   create_questions env b documents 1 =
     (Inr (JList [r]), b', tr @ replicate (Suc j) (ChainInvoke (query b')) @ [DeleteCollection vs])"
proof -
  assume cmp: "compile env b documents = (Inr c, b', tr)"
    and vs: "vectorstore b' = Some vs" "delete_collection (vectorstore_class b') vs = None"
    and j: "j < 5" and rej: "\<forall>k<j. attempt env b' c k = Rejected"
    and acc: "attempt env b' c j = Accepted r"
  have "generation_loop env b' c 1 5 [] 0 = (Inr [r], int j + 1)"
    using j rej acc by (intro loop_rejected_then_accepted) auto
  then have lp: "generation_loop env b' c 1 (1 * 5) [] 0 = (Inr [r], int j + 1)" by simp
  have le: "(1::int) \<le> 10" by simp
  have "nat (int j + 1) = Suc j" by simp
  with vs show ?thesis
    by (simp add: create_questions_unfold [OF le cmp lp] slice_to_def)
qed

lemma rejected_attempts_then_accepted_example:
  "create_questions (test_env rejected_then_valid_model)
      (test_builder rejected_then_valid_model) [''doc''] 1 =
     (Inr (JList [blank_example]), test_compiled rejected_then_valid_model,
      [FromDocuments [''doc'']] @ replicate 5 (ChainInvoke test_query) @ [DeleteCollection 1])"
proof -
  have j: "(4::nat) < 5" by simp
  have rej: "\<forall>k<4. attempt (test_env rejected_then_valid_model)
      (test_compiled rejected_then_valid_model)
      (test_chain rejected_then_valid_model) k = Rejected"
    by (simp add: attempt_rejected_then_valid)
  have acc: "attempt (test_env rejected_then_valid_model)
      (test_compiled rejected_then_valid_model)
      (test_chain rejected_then_valid_model) 4 = Accepted blank_example"
    by (simp add: attempt_rejected_then_valid)
  show ?thesis
    using rejected_attempts_then_accepted [OF compile_test_builder test_compiled_store(1)
        test_compiled_store(2) j rej acc]
    by (simp add: test_compiled_store numeral_eq_Suc)
qed

text \<open>
  Claim C2 at the input where it fails. The model answers malformed text on its first four
  invocations and the valid fill-in-the-blank example on the fifth. The parser's exception
  on the first reply leaves \<^verbatim>\<open>chain.invoke\<close>, which the loop calls outside any
  \<^verbatim>\<open>try\<close>, and so the method: one invocation is made and the call raises, although the
  fifth reply parses and validates.
\<close>

theorem create_questions_raises_on_malformed_reply:
  "fst (create_questions (test_env malformed_then_valid_model)
         (test_builder malformed_then_valid_model) [''doc''] 1)
     = Inl (OutputParserException ''Invalid json output: not json'') \<and>
   attempts_made (snd (snd (create_questions (test_env malformed_then_valid_model)
         (test_builder malformed_then_valid_model) [''doc''] 1))) = 1 \<and>
   malformed_then_valid_model test_query 4 = Inr ''blank example'' \<and>
   table_parse test_replies ''blank example'' = Inr blank_example \<and>
   validate_question (test_env malformed_then_valid_model)
      (test_builder malformed_then_valid_model) blank_example"
proof -
  have at: "attempt (test_env malformed_then_valid_model)
      (test_compiled malformed_then_valid_model)
      (test_chain malformed_then_valid_model) (nat 0)
        = Raised (OutputParserException ''Invalid json output: not json'')"
    by (simp add: attempt_def invoke_test_chain malformed_then_valid_model_def switching_model_def
        parse_not_json)
  have lp: "generation_loop (test_env malformed_then_valid_model)
      (test_compiled malformed_then_valid_model)
      (test_chain malformed_then_valid_model) 1 (1 * 5) [] 0
        = (Inl (OutputParserException ''Invalid json output: not json''), 0 + 1)"
    by (rule loop_raised [OF _ _ at]) simp_all
  have le: "(1::int) \<le> 10" by simp
  have v: "validate_question (test_env malformed_then_valid_model)
      (test_builder malformed_then_valid_model) blank_example"
    using blank_example_accepted(2) [of malformed_then_valid_model]
    by (simp add: validate_question_def test_compiled_def)
  have cq: "create_questions (test_env malformed_then_valid_model)
         (test_builder malformed_then_valid_model) [''doc''] 1 =
      (Inl (OutputParserException ''Invalid json output: not json''),
       test_compiled malformed_then_valid_model,
       [FromDocuments [''doc''], ChainInvoke test_query])"
    by (simp add: create_questions_unfold [OF le compile_test_builder lp] test_compiled_store)
  have m: "malformed_then_valid_model test_query 4 = Inr ''blank example''"
    by (simp add: malformed_then_valid_model_def switching_model_def)
  show ?thesis
    using v m by (simp add: cq attempts_made_def parse_blank_example)
qed

section \<open>Resolving a question type\<close>

text \<open>
  Claim C3, as the code has it. The dictionary of \<^verbatim>\<open>get_parser_for_question_type\<close> has
  seven keys: the six question types and the literal \<^verbatim>\<open>default\<close>, which resolves to the
  multiple-choice schema. Every other identifier fails with the unsupported-question-type
  \<open>ValueError\<close>; no unknown identifier is coerced to a schema.
\<close>

theorem get_parser_unsupported:
  "(qt \<notin> {''fill_in_the_blank'', ''open_ended'', ''true_false'', ''multiple_choice'',
            ''relate_concepts'', ''math_exercises'', ''default''} \<longrightarrow>
      get_parser_for_question_type env qt = Inl (ValueError (''Unsupported question type: '' @ qt))) \<and>
   get_parser_for_question_type env ''default'' = Inr (JsonOutputParser env MultipleChoiceQuestion)"
  by (simp add: get_parser_for_question_type_def schema_mapping_def)

theorem get_parser_unsupported_witness:
  "get_parser_for_question_type (test_env rejected_model) ''essay''
     = Inl (ValueError ''Unsupported question type: essay'')"
  using get_parser_unsupported [of "''essay''" "test_env rejected_model"] by simp

text \<open>
  The identifier \<^verbatim>\<open>default\<close> is outside the six documented types and still resolves, so
  resolution does not fail for every identifier outside that set.
\<close>

theorem get_parser_default_counterexample:
  "\<not> (\<forall>env qt. qt \<notin> {''fill_in_the_blank'', ''open_ended'', ''true_false'', ''multiple_choice'',
            ''relate_concepts'', ''math_exercises''} \<longrightarrow>
         (\<exists>e. get_parser_for_question_type env qt = Inl e))"
proof
  assume h: "\<forall>env qt. qt \<notin> {''fill_in_the_blank'', ''open_ended'', ''true_false'', ''multiple_choice'',
            ''relate_concepts'', ''math_exercises''} \<longrightarrow>
         (\<exists>e. get_parser_for_question_type env qt = Inl e)"
  have "\<exists>e. get_parser_for_question_type (test_env rejected_model) ''default'' = Inl e"
    using h [rule_format, of "''default''" "test_env rejected_model"] by simp
  then show False
    by (simp add: get_parser_for_question_type_def schema_mapping_def)
qed

section \<open>The bound on the requested count\<close>

text \<open>
  Claim C4. For every requested count above 10, \<^verbatim>\<open>create_questions\<close> returns the message
  dictionary with the text "Number of questions cannot exceed 10" at once: the builder is
  unchanged (no vector store is built) and the trace of provider calls is empty, so no
  embedding call and no model call happened, and nothing was generated and then truncated.
\<close>

theorem create_questions_rejects_over_ten:
  "10 < n \<Longrightarrow>
   create_questions env b documents n =
     (Inr (JDict [(''message'', JStr ''error''),
                  (''data'', JStr ''Number of questions cannot exceed 10'')]), b, [])"
  by (simp add: create_questions_def)

theorem create_questions_rejects_over_ten_witness:
  "create_questions (test_env rejected_model) (test_builder rejected_model) [''doc''] 11 =
     (Inr (JDict [(''message'', JStr ''error''),
                  (''data'', JStr ''Number of questions cannot exceed 10'')]),
      test_builder rejected_model, [])"
  by (rule create_questions_rejects_over_ten) simp

section \<open>The attempt budget\<close>




section \<open>The returned list\<close>

text \<open>
  Claim C6. Whenever \<^verbatim>\<open>create_questions\<close> returns a list, the list has at most
  \<open>num_questions\<close> entries (it is empty for a count that is not positive) and every entry
  passes \<^verbatim>\<open>validate_question\<close> for the question type of the builder.
\<close>

theorem create_questions_bounded_and_valid:
  "fst (create_questions env b documents n) = Inr (JList qs) \<Longrightarrow>
   length qs \<le> nat n \<and> list_all (validate_question env b) qs"
proof -
  assume ok: "fst (create_questions env b documents n) = Inr (JList qs)"
  then have le: "n \<le> 10"
    by (auto simp: create_questions_def split: if_splits)
  obtain res0 b' tr where cmp0: "compile env b documents = (res0, b', tr)"
    by (cases "compile env b documents") auto
  with ok le obtain c where cmp: "compile env b documents = (Inr c, b', tr)"
    by (cases res0) (auto simp: create_questions_def)
  obtain res k where lp0: "generation_loop env b' c n (n * 5) [] 0 = (res, k)"
    by (cases "generation_loop env b' c n (n * 5) [] 0") auto
  with ok obtain gen where lp: "generation_loop env b' c n (n * 5) [] 0 = (Inr gen, k)"
    and qs: "qs = slice_to gen n"
    by (cases res) (auto simp: create_questions_unfold[OF le cmp lp0] split: option.splits)
  have "int (length gen) \<le> max 0 n"
    using loop_length_bound[OF lp] by simp
  then have len: "length qs \<le> nat n"
    unfolding qs by (rule length_slice_to)
  have "list_all (validate_question env b') gen"
    using loop_all_valid[OF lp] by simp
  then have "list_all (validate_question env b') qs"
    unfolding qs by (rule list_all_slice_to)
  then have "list_all (validate_question env b) qs"
    using validate_question_cong[OF compile_question_type[OF cmp], of env] by simp
  with len show ?thesis by simp
qed

theorem create_questions_bounded_and_valid_witness:
  "fst (create_questions (test_env rejected_then_valid_model)
         (test_builder rejected_then_valid_model) [''doc''] 1)
     = Inr (JList [blank_example]) \<and>
   length [blank_example] \<le> nat 1 \<and>
   list_all (validate_question (test_env rejected_then_valid_model)
      (test_builder rejected_then_valid_model)) [blank_example]"
proof -
  have le: "(1::int) \<le> 10" by simp
  have h: "fst (create_questions (test_env rejected_then_valid_model)
         (test_builder rejected_then_valid_model) [''doc''] 1)
     = Inr (JList [blank_example])"
    by (simp add: create_questions_unfold [OF le compile_test_builder loop_rejected_then_valid]
        test_compiled_store slice_to_def)
  from create_questions_bounded_and_valid [OF h] h show ?thesis by simp
qed

text \<open>
  Claim C7, as the code has it. When the loop ends with fewer validated questions than
  requested, the attempt budget \<open>5 * num_questions\<close> is used up, and the call returns the
  collected questions as a list provided the builder holds a vector store whose
  \<^verbatim>\<open>delete_collection\<close> does not raise. In particular, under the same proviso, for three
  requested questions and a chain whose every answer passes the normalisation of lines
  133 and 134 and is rejected by validation, the call returns the empty list after
  exactly 15 invocations.
\<close>

theorem create_questions_partial_result:
  "(n \<le> 10 \<and> compile env b documents = (Inr c, b', tr) \<and>
    generation_loop env b' c n (n * 5) [] 0 = (Inr gen, k) \<and> int (length gen) < n \<and>
    vectorstore b' = Some vs \<and> delete_collection (vectorstore_class b') vs = None \<longrightarrow>
      k = n * 5 \<and>
      create_questions env b documents n =
        (Inr (JList gen), b',
         tr @ replicate (nat (n * 5)) (ChainInvoke (query b')) @ [DeleteCollection vs])) \<and>
   (compile env b documents = (Inr c, b', tr) \<and> (\<forall>j. attempt env b' c j = Rejected) \<and>
    vectorstore b' = Some vs \<and> delete_collection (vectorstore_class b') vs = None \<longrightarrow>
      create_questions env b documents 3 =
        (Inr (JList []), b', tr @ replicate 15 (ChainInvoke (query b')) @ [DeleteCollection vs]))"
proof (intro conjI impI; elim conjE)
  assume le: "n \<le> 10" and cmp: "compile env b documents = (Inr c, b', tr)"
    and lp: "generation_loop env b' c n (n * 5) [] 0 = (Inr gen, k)"
    and short: "int (length gen) < n"
    and vs: "vectorstore b' = Some vs" "delete_collection (vectorstore_class b') vs = None"
  from short have pos: "0 \<le> n * 5" by simp
  from loop_short_exhausted [OF lp short pos] show k: "k = n * 5" .
  from short have "slice_to gen n = gen" by (simp add: slice_to_def)
  with vs k show "create_questions env b documents n =
        (Inr (JList gen), b',
         tr @ replicate (nat (n * 5)) (ChainInvoke (query b')) @ [DeleteCollection vs])"
    by (simp add: create_questions_unfold [OF le cmp lp])
next
  assume cmp: "compile env b documents = (Inr c, b', tr)"
    and rej: "\<forall>j. attempt env b' c j = Rejected"
    and vs: "vectorstore b' = Some vs" "delete_collection (vectorstore_class b') vs = None"
  have lp: "generation_loop env b' c 3 (3 * 5) [] 0 = (Inr [], 15)"
    using loop_all_rejected [of env b' c 3 "3 * 5" "[]" 0] rej by simp
  have le: "(3::int) \<le> 10" by simp
  from vs show "create_questions env b documents 3 =
        (Inr (JList []), b', tr @ replicate 15 (ChainInvoke (query b')) @ [DeleteCollection vs])"
    by (simp add: create_questions_unfold [OF le cmp lp] slice_to_def)
qed

theorem create_questions_partial_result_witness:
  "generation_loop (test_env rejected_model) (test_compiled rejected_model)
      (test_chain rejected_model) 3 (3 * 5) [] 0 = (Inr [], 15) \<and>
   create_questions (test_env rejected_model) (test_builder rejected_model) [''doc''] 3 =
     (Inr (JList []), test_compiled rejected_model,
      [FromDocuments [''doc'']] @ replicate 15 (ChainInvoke test_query) @ [DeleteCollection 1])"
proof -
  have lp: "generation_loop (test_env rejected_model) (test_compiled rejected_model)
      (test_chain rejected_model) 3 (3 * 5) [] 0 = (Inr [], 15)"
    using loop_all_rejected [of "test_env rejected_model" "test_compiled rejected_model"
        "test_chain rejected_model" 3 "3 * 5" "[]" 0]
    by (simp add: attempt_rejected_model)
  note t = create_questions_partial_result [where n = 3 and env = "test_env rejected_model"
      and b = "test_builder rejected_model" and documents = "[''doc'']"
      and c = "test_chain rejected_model" and b' = "test_compiled rejected_model"
      and tr = "[FromDocuments [''doc'']]" and gen = "[]" and k = 15 and vs = 1]
  from t lp show ?thesis
    by (simp add: compile_test_builder attempt_rejected_model test_compiled_store)
qed

text \<open>
  Without the proviso the list is lost: \<^verbatim>\<open>delete_collection\<close> is called before the
  \<^verbatim>\<open>return\<close>, outside any \<^verbatim>\<open>try\<close>. With a store whose release raises, the loop
  ends after 15 rejected attempts with the empty list collected, and the call raises.
\<close>

theorem raising_release_counterexample:
  "generation_loop (test_env rejected_model) (unreleasable_compiled rejected_model)
      (test_chain rejected_model) 3 (3 * 5) [] 0 = (Inr [], 15) \<and>
   create_questions (test_env rejected_model) (unreleasable_builder rejected_model) [''doc''] 3 =
     (Inl (ProviderError ''collection could not be deleted''), unreleasable_compiled rejected_model,
      [FromDocuments [''doc'']] @ replicate 15 (ChainInvoke test_query) @ [DeleteCollection 1])"
proof -
  have lp: "generation_loop (test_env rejected_model) (unreleasable_compiled rejected_model)
      (test_chain rejected_model) 3 (3 * 5) [] 0 = (Inr [], 15)"
    using loop_all_rejected [of "test_env rejected_model" "unreleasable_compiled rejected_model"
        "test_chain rejected_model" 3 "3 * 5" "[]" 0]
    by (simp add: attempt_unreleasable_rejected)
  have le: "(3::int) \<le> 10" by simp
  show ?thesis
    using lp
    by (simp add: create_questions_unfold [OF le compile_unreleasable_builder lp]
        unreleasable_compiled_store)
qed

section \<open>Normalisation of a candidate\<close>

text \<open>
  Claim C8. On a candidate that is a JSON object, the normalisation step returns the object
  without the key \<^verbatim>\<open>model_config\<close>: that key is absent afterwards, every other key keeps
  its value (and its position), and the loop validates the stripped object, which is also
  what it appends. A value that is no object is handed on unchanged whenever the step
  returns.
\<close>

theorem strip_model_config_frame:
  "strip_model_config (JDict d) = Inr (JDict (filter (\<lambda>kv. fst kv \<noteq> ''model_config'') d)) \<and>
   map_of (filter (\<lambda>kv. fst kv \<noteq> ''model_config'') d) ''model_config'' = None \<and>
   (\<forall>k. k \<noteq> ''model_config'' \<longrightarrow>
      map_of (filter (\<lambda>kv. fst kv \<noteq> ''model_config'') d) k = map_of d k) \<and>
   (int (length g) < n \<and> a < m \<and> invoke c (query b) (nat a) = Inr (JDict d) \<longrightarrow>
      generation_loop env b c n m g a =
        generation_loop env b c n m
          (if validate_question env b (JDict (filter (\<lambda>kv. fst kv \<noteq> ''model_config'') d))
           then g @ [JDict (filter (\<lambda>kv. fst kv \<noteq> ''model_config'') d)] else g)
          (a + 1)) \<and>
   (strip_model_config v = Inr v' \<and> (\<forall>d'. v \<noteq> JDict d') \<longrightarrow> v' = v)"
proof -
  have o: "v' = v" if "strip_model_config v = Inr v'" "\<forall>d'. v \<noteq> JDict d'"
    using that by (cases v) (auto split: if_splits)
  have s: "strip_model_config (JDict d) = Inr (JDict (filter (\<lambda>kv. fst kv \<noteq> ''model_config'') d))"
    by (cases "map_of d ''model_config''") (simp_all add: filter_absent_key)
  have l: "generation_loop env b c n m g a =
        generation_loop env b c n m
          (if validate_question env b (JDict (filter (\<lambda>kv. fst kv \<noteq> ''model_config'') d))
           then g @ [JDict (filter (\<lambda>kv. fst kv \<noteq> ''model_config'') d)] else g)
          (a + 1)"
    if "int (length g) < n" "a < m" "invoke c (query b) (nat a) = Inr (JDict d)"
    using that s by (subst generation_loop.simps) simp
  show ?thesis
    using s l o by (simp add: map_of_filter_key)
qed

theorem strip_model_config_frame_witness:
  "strip_model_config (JDict ((''model_config'', JDict []) # blank_fields)) = Inr blank_example \<and>
   map_of blank_fields ''explanation'' = map_of ((''model_config'', JDict []) # blank_fields) ''explanation'' \<and>
   generation_loop (test_env tagged_model) (test_compiled tagged_model)
      (test_chain tagged_model) 1 5 [] 0 = (Inr [blank_example], 1) \<and>
   strip_model_config (JList [JInt 1]) = Inr (JList [JInt 1])"
proof -
  have f: "filter (\<lambda>kv. fst kv \<noteq> ''model_config'') ((''model_config'', JDict []) # blank_fields) = blank_fields"
    by (simp add: blank_fields_def)
  have i: "invoke (test_chain tagged_model)
      (query (test_compiled tagged_model)) (nat 0)
        = Inr (JDict ((''model_config'', JDict []) # blank_fields))"
    by (simp add: invoke_test_chain tagged_model_def switching_model_def table_parse_def test_replies_def)
  have v: "validate_question (test_env tagged_model) (test_compiled tagged_model) (JDict blank_fields)"
    using blank_example_accepted(2) [of tagged_model] by (simp add: blank_example_def)
  note t = strip_model_config_frame [of "(''model_config'', JDict []) # blank_fields" "[]" 1 0 5
      "test_chain tagged_model" "test_compiled tagged_model"
      "test_env tagged_model" "JList [JInt 1]" "JList [JInt 1]", unfolded f]
  from t i v show ?thesis
    by (simp add: blank_example_def loop_exit)
qed

section \<open>Construction of a builder\<close>

text \<open>
  Claim C9. Constructing a builder with a question type that is not a key of the schema
  dictionary fails, whatever the other arguments are, an explicit parser override included:
  the default parser is resolved while \<^verbatim>\<open>default_config\<close> is built, before any override is
  looked at. When the two client constructors before it succeed, the failure is the
  unsupported-question-type \<open>ValueError\<close>.
\<close>

theorem init_unsupported_type_fails:
  "qt \<notin> set (map fst schema_mapping) \<Longrightarrow>
   isl (QuizBuilder_init env topic_arg qt lang_arg vectorstore_class_arg prompt_arg
          embedding_model_arg model_arg parser_arg verbose_arg) \<and>
   (\<forall>dm de. GoogleGenerativeAI env ''gemini-1.5-pro'' = Inr dm \<and>
            GoogleGenerativeAIEmbeddings env ''models/embedding-001'' = Inr de \<longrightarrow>
      QuizBuilder_init env topic_arg qt lang_arg vectorstore_class_arg prompt_arg
          embedding_model_arg model_arg parser_arg verbose_arg
        = Inl (ValueError (''Unsupported question type: '' @ qt)))"
proof -
  assume "qt \<notin> set (map fst schema_mapping)"
  then have "map_of schema_mapping qt = None"
    by (simp add: map_of_eq_None_iff)
  then have "get_parser_for_question_type env qt = Inl (ValueError (''Unsupported question type: '' @ qt))"
    by (simp add: get_parser_for_question_type_def)
  then show ?thesis
    by (auto simp: QuizBuilder_init_def split: sum.splits)
qed

theorem init_unsupported_type_fails_witness:
  "QuizBuilder_init (test_env rejected_model) (Some ''Paris'') ''essay'' ''en'' (Some test_store) None None None
      (Some (JsonOutputParser (test_env rejected_model) OpenEndedQuestion)) True
     = Inl (ValueError ''Unsupported question type: essay'')"
proof -
  have h: "''essay'' \<notin> set (map fst schema_mapping)"
    by (simp add: schema_mapping_def)
  show ?thesis
    using init_unsupported_type_fails [OF h, of "test_env rejected_model" "Some ''Paris''" "''en''"
        "Some test_store" None None None "Some (JsonOutputParser (test_env rejected_model) OpenEndedQuestion)" True]
    by (simp add: test_env_def)
qed

section \<open>A count of zero or less\<close>

text \<open>
  Claim C10, as the code has it. For a requested count of zero or less,
  \<^verbatim>\<open>create_questions\<close> makes no chain invocation, and whenever it returns a list the
  list is empty and the vector store was released exactly once. On a builder that has
  not compiled before (\<^verbatim>\<open>self.runner\<close> is \<^verbatim>\<open>None\<close>), when the format instructions,
  the prompt template and the vector store are obtained without an exception and the
  release does not raise, the call returns the empty list after one
  \<^verbatim>\<open>from_documents\<close> call followed by one \<^verbatim>\<open>delete_collection\<close> call.
\<close>

theorem create_questions_nonpositive_count:
  "n \<le> 0 \<Longrightarrow>
   attempts_made (snd (snd (create_questions env b documents n))) = 0 \<and>
   (fst (create_questions env b documents n) = Inr (JList qs) \<longrightarrow>
      qs = [] \<and> releases (snd (snd (create_questions env b documents n))) = 1) \<and>
   (runner b = None \<and> get_format_instructions (parser b) = Inr fi \<and>
    PromptTemplate env (prompt b) [''attribute_collection''] [(''format_instructions'', fi)] = None \<and>
    from_documents (vectorstore_class b) documents (embedding_model b) = Inr vs \<and>
    delete_collection (vectorstore_class b) vs = None \<longrightarrow>
      create_questions env b documents n =
        (Inr (JList []),
         b\<lparr>vectorstore := Some vs, retriever := Some vs, runner := Some vs\<rparr>,
         [FromDocuments documents, DeleteCollection vs]))"
proof -
  assume n: "n \<le> 0"
  then have le: "n \<le> 10" by simp
  obtain res0 b0 tr0 where cmp0: "compile env b documents = (res0, b0, tr0)"
    by (cases "compile env b documents") auto
  have a: "attempts_made (snd (snd (create_questions env b documents n))) = 0"
  proof (cases res0)
    case (Inl e)
    with le cmp0 compile_no_attempts [OF cmp0] show ?thesis
      by (simp add: create_questions_def)
  next
    case (Inr c0)
    have lp: "generation_loop env b0 c0 n (n * 5) [] 0 = (Inr [], 0)"
      using n by (simp add: loop_exit)
    from create_questions_attempts [OF le cmp0 [unfolded Inr] lp] show ?thesis by simp
  qed
  have r: "qs = [] \<and> releases (snd (snd (create_questions env b documents n))) = 1"
    if ok: "fst (create_questions env b documents n) = Inr (JList qs)"
  proof -
    from ok le cmp0 obtain c0 where cmp: "compile env b documents = (Inr c0, b0, tr0)"
      by (cases res0) (auto simp: create_questions_def)
    have lp: "generation_loop env b0 c0 n (n * 5) [] 0 = (Inr [], 0)"
      using n by (simp add: loop_exit)
    from ok have "qs = []"
      by (auto simp: create_questions_unfold [OF le cmp lp] slice_to_def split: option.splits)
    with create_questions_releases_once_on_return [OF ok] show ?thesis by simp
  qed
  have f: "create_questions env b documents n =
        (Inr (JList []),
         b\<lparr>vectorstore := Some vs, retriever := Some vs, runner := Some vs\<rparr>,
         [FromDocuments documents, DeleteCollection vs])"
    if fresh: "runner b = None" and fi: "get_format_instructions (parser b) = Inr fi"
      and pt: "PromptTemplate env (prompt b) [''attribute_collection''] [(''format_instructions'', fi)] = None"
      and build: "from_documents (vectorstore_class b) documents (embedding_model b) = Inr vs"
      and del: "delete_collection (vectorstore_class b) vs = None"
  proof -
    let ?b' = "b\<lparr>vectorstore := Some vs, retriever := Some vs, runner := Some vs\<rparr>"
    have cmp: "compile env b documents = (Inr (make_chain ?b' fi), ?b', [FromDocuments documents])"
      using fresh fi pt build by (simp add: compile_def Let_def)
    have lp: "generation_loop env ?b' (make_chain ?b' fi) n (n * 5) [] 0 = (Inr [], 0)"
      using n by (simp add: loop_exit)
    show ?thesis
      using del by (simp add: create_questions_unfold [OF le cmp lp] slice_to_def)
  qed
  from a r f show ?thesis by blast
qed

theorem create_questions_nonpositive_count_witness:
  "attempts_made (snd (snd (create_questions (test_env rejected_then_valid_model)
      (test_builder rejected_then_valid_model) [''doc''] (- 2)))) = 0 \<and>
   releases (snd (snd (create_questions (test_env rejected_then_valid_model)
      (test_builder rejected_then_valid_model) [''doc''] (- 2)))) = 1 \<and>
   create_questions (test_env rejected_then_valid_model)
      (test_builder rejected_then_valid_model) [''doc''] (- 2) =
     (Inr (JList []), test_compiled rejected_then_valid_model,
      [FromDocuments [''doc''], DeleteCollection 1])"
proof -
  have n: "(- 2 :: int) \<le> 0" by simp
  have fresh: "runner (test_builder rejected_then_valid_model) = None"
    by (simp add: test_builder_def)
  have fi: "get_format_instructions (parser (test_builder rejected_then_valid_model))
      = Inr ''Return a JSON object.''"
    by (simp add: test_builder_def JsonOutputParser_def test_env_def)
  have pt: "PromptTemplate (test_env rejected_then_valid_model)
      (prompt (test_builder rejected_then_valid_model)) [''attribute_collection'']
      [(''format_instructions'', ''Return a JSON object.'')] = None"
    by (simp add: test_builder_def test_env_def)
  have build: "from_documents (vectorstore_class (test_builder rejected_then_valid_model))
      [''doc''] (embedding_model (test_builder rejected_then_valid_model)) = Inr 1"
    by (simp add: test_builder_def test_store_def)
  have del: "delete_collection (vectorstore_class (test_builder rejected_then_valid_model)) 1 = None"
    by (simp add: test_builder_def test_store_def)
  note t = create_questions_nonpositive_count [OF n, where env = "test_env rejected_then_valid_model"
      and b = "test_builder rejected_then_valid_model" and documents = "[''doc'']"
      and qs = "[]" and fi = "''Return a JSON object.''" and vs = 1]
  have cq: "create_questions (test_env rejected_then_valid_model)
      (test_builder rejected_then_valid_model) [''doc''] (- 2) =
     (Inr (JList []), test_compiled rejected_then_valid_model,
      [FromDocuments [''doc''], DeleteCollection 1])"
    using t fresh fi pt build del by (simp add: test_compiled_def)
  from t cq show ?thesis by simp
qed

text \<open>
  The store is not built on every call with such a count. A builder that has compiled
  once keeps its runner, so a second call on it builds nothing and only releases: here
  the builder left by a first call is called again with a count of zero.
\<close>

theorem reused_builder_counterexample:
  "fst (snd (create_questions (test_env rejected_model) (test_builder rejected_model) [''doc''] 0))
     = test_compiled rejected_model \<and>
   create_questions (test_env rejected_model) (test_compiled rejected_model) [''doc''] 0 =
     (Inr (JList []), test_compiled rejected_model, [DeleteCollection 1]) \<and>
   builds [DeleteCollection 1] = 0"
proof -
  have le: "(0::int) \<le> 10" by simp
  have lp: "generation_loop (test_env rejected_model) (test_compiled rejected_model)
      (test_chain rejected_model) 0 (0 * 5) [] 0 = (Inr [], 0)"
    by (simp add: loop_exit)
  have first: "create_questions (test_env rejected_model) (test_builder rejected_model) [''doc''] 0 =
     (Inr (JList []), test_compiled rejected_model, [FromDocuments [''doc''], DeleteCollection 1])"
    by (simp add: create_questions_unfold [OF le compile_test_builder lp] test_compiled_store
        slice_to_def)
  have second: "create_questions (test_env rejected_model) (test_compiled rejected_model) [''doc''] 0 =
     (Inr (JList []), test_compiled rejected_model, [DeleteCollection 1])"
    by (simp add: create_questions_unfold [OF le compile_test_compiled lp] test_compiled_store
        slice_to_def)
  show ?thesis
    by (simp add: first second builds_def)
qed

end
